theory Spec2Isabelle
  imports Main
begin

section \<open>Data model\<close>

text \<open>
  The repository holds two generations of the same server class \<open>DiscordMcpServer\<close>:
  \<^item> \<open>src/index.ts\<close> (version 1.0.0): five tools, no session manager, no queue;
  \<^item> the resilient draft (version 1.0.1): three tools, \<open>ensureConnected\<close>, the
    pending queue and its drain.
  Definitions taken from \<open>src/index.ts\<close> carry the suffix \<open>_v100\<close>; the others follow
  the resilient draft. JavaScript strings are modelled as \<open>string\<close>; the only operations
  the code applies to them are equality, concatenation and \<open>includes\<close>, so a character
  outside ASCII is written as its UTF-8 bytes. JavaScript numbers are modelled as
  \<open>int\<close>: the model covers integral arguments only.
\<close>

definition check_mark :: string where
  "check_mark = [CHR 0xE2, CHR 0x9C, CHR 0x85]"

datatype error_code = InternalError | InvalidParams | MethodNotFound

text \<open>A schema violation reported by the validation library: the field and what it wanted.\<close>

datatype issue = Required string | InvalidType string string

text \<open>
  Everything the code can throw: an \<open>McpError\<close> with its code and message, the
  validation library's \<open>ZodError\<close> with its issues, and any other \<open>Error\<close> (a rejected
  platform call, the login timeout) with its message.
\<close>

datatype error = McpError error_code string | ZodError "issue list" | OtherError string

record reaction =
  emoji_name :: string
  me :: bool

record message =
  msg_id :: string
  createdAt :: int
  author_username :: string
  msg_content :: string
  attachments :: "string list"
  reactions :: "reaction list"

record channel =
  chan_id :: nat
  chan_name :: string
  isTextBased :: bool

type_synonym guild = "channel list"

text \<open>\<open>{ channel_name, content }\<close>, the element type of \<open>pendingMessages\<close>.\<close>

record pending =
  channel_name :: string
  content :: string

text \<open>The calls the server issues to the chat platform, logged in the order they are made.\<close>

datatype platform_call =
    Login
  | Send channel string
  | Fetch channel int
  | FetchMessage channel string
  | React string string
  | RemoveOwnReaction string string
  | Delete string

text \<open>
  The fields of the class (\<open>ready\<close>, \<open>loggingIn\<close>, \<open>pendingMessages\<close>,
  \<open>loginPromise\<close>), what the model needs of the platform client (\<open>guilds\<close> is
  \<open>client.guilds.cache\<close>; \<open>readyListener\<close> says whether the handler registered with
  \<open>client.once('ready', ...)\<close> is still registered), and three logs that the code
  does not hold: the platform calls issued so far, the texts the platform accepted, and
  the login attempts that have started and not yet run their \<open>finally\<close> block.
  A login attempt is named by the number of platform calls made before its own.
\<close>

record server =
  ready :: bool
  loggingIn :: bool
  pendingMessages :: "pending list"
  loginPromise :: "nat option"
  guilds :: "guild list"
  readyListener :: bool
  calls :: "platform_call list"
  delivered :: "(channel \<times> string) list"
  inflight :: "nat list"

section \<open>Channel resolver\<close>

fun find_channel :: "guild list \<Rightarrow> string \<Rightarrow> channel option" where
  "find_channel [] name = None"
| "find_channel (g # gs) name =
     (case find (\<lambda>c. chan_name c = name \<and> isTextBased c) g of
        Some c \<Rightarrow> Some c
      | None \<Rightarrow> find_channel gs name)"

definition getChannelByName :: "server \<Rightarrow> string \<Rightarrow> error + channel" where
  "getChannelByName s name =
     (if \<not> ready s then Inl (McpError InternalError ''Discord client is not ready.'')
      else case find_channel (guilds s) name of
             Some c \<Rightarrow> Inr c
           | None \<Rightarrow> Inl (McpError InvalidParams (''Channel #'' @ name @ '' not found.'')))"

definition getChannelByName_v100 :: "server \<Rightarrow> string \<Rightarrow> error + channel" where
  "getChannelByName_v100 s name =
     (if \<not> ready s then Inl (McpError InternalError ''Discord client is not ready yet.'')
      else case find_channel (guilds s) name of
             Some c \<Rightarrow> Inr c
           | None \<Rightarrow>
               Inl (McpError InvalidParams (''Channel #'' @ name @ '' not found in any guild.'')))"

section \<open>The platform\<close>

text \<open>
  The chat platform client and the validation library are not part of the repository.
  What they answer is a parameter of the model: each answer is a function of the calls
  issued so far (the last one being the call answered), so that an answer may change from
  one call to the next. A login attempt ends in one of four ways: \<open>client.login\<close>
  rejects; the client emits \<open>ready\<close>; the client emits \<open>error\<close> while the attempt
  waits for \<open>ready\<close>; neither comes within 15 seconds.
\<close>

datatype login_outcome =
    LoginRejected string
  | LoginReady
  | LoginErrorEvent string
  | LoginTimeout

record platform =
  loginResult :: "nat \<Rightarrow> login_outcome"
  sendResult :: "platform_call list \<Rightarrow> string option"
  fetchResult :: "platform_call list \<Rightarrow> string + message list"
  fetchMessageResult :: "platform_call list \<Rightarrow> string + message"
  reactResult :: "platform_call list \<Rightarrow> string option"
  removeResult :: "platform_call list \<Rightarrow> string option"
  deleteResult :: "platform_call list \<Rightarrow> string option"
  toISOString :: "int \<Rightarrow> string"
  issueMessage :: "issue \<Rightarrow> string"
  projectName :: string

definition channel_send ::
  "platform \<Rightarrow> channel \<Rightarrow> string \<Rightarrow> server \<Rightarrow> (error + unit) \<times> server" where
  "channel_send env ch txt s =
     (let tr = calls s @ [Send ch txt] in
      case sendResult env tr of
        Some msg \<Rightarrow> (Inl (OtherError msg), s\<lparr>calls := tr\<rparr>)
      | None \<Rightarrow> (Inr (), s\<lparr>calls := tr, delivered := delivered s @ [(ch, txt)]\<rparr>))"

definition messages_fetch ::
  "platform \<Rightarrow> channel \<Rightarrow> int \<Rightarrow> server \<Rightarrow> (error + message list) \<times> server" where
  "messages_fetch env ch n s =
     (let tr = calls s @ [Fetch ch n] in
      case fetchResult env tr of
        Inl msg \<Rightarrow> (Inl (OtherError msg), s\<lparr>calls := tr\<rparr>)
      | Inr ms \<Rightarrow> (Inr ms, s\<lparr>calls := tr\<rparr>))"

definition message_fetch ::
  "platform \<Rightarrow> channel \<Rightarrow> string \<Rightarrow> server \<Rightarrow> (error + message) \<times> server" where
  "message_fetch env ch mid s =
     (let tr = calls s @ [FetchMessage ch mid] in
      case fetchMessageResult env tr of
        Inl msg \<Rightarrow> (Inl (OtherError msg), s\<lparr>calls := tr\<rparr>)
      | Inr m \<Rightarrow> (Inr m, s\<lparr>calls := tr\<rparr>))"

definition message_react ::
  "platform \<Rightarrow> message \<Rightarrow> string \<Rightarrow> server \<Rightarrow> (error + unit) \<times> server" where
  "message_react env m e s =
     (let tr = calls s @ [React (msg_id m) e] in
      case reactResult env tr of
        Some msg \<Rightarrow> (Inl (OtherError msg), s\<lparr>calls := tr\<rparr>)
      | None \<Rightarrow> (Inr (), s\<lparr>calls := tr\<rparr>))"

definition reaction_users_remove ::
  "platform \<Rightarrow> message \<Rightarrow> string \<Rightarrow> server \<Rightarrow> (error + unit) \<times> server" where
  "reaction_users_remove env m e s =
     (let tr = calls s @ [RemoveOwnReaction (msg_id m) e] in
      case removeResult env tr of
        Some msg \<Rightarrow> (Inl (OtherError msg), s\<lparr>calls := tr\<rparr>)
      | None \<Rightarrow> (Inr (), s\<lparr>calls := tr\<rparr>))"

definition message_delete ::
  "platform \<Rightarrow> message \<Rightarrow> server \<Rightarrow> (error + unit) \<times> server" where
  "message_delete env m s =
     (let tr = calls s @ [Delete (msg_id m)] in
      case deleteResult env tr of
        Some msg \<Rightarrow> (Inl (OtherError msg), s\<lparr>calls := tr\<rparr>)
      | None \<Rightarrow> (Inr (), s\<lparr>calls := tr\<rparr>))"

section \<open>Pending queue\<close>

definition delay_note :: string where
  "delay_note =
     [CHR 0x0A, CHR 0x0A] @ ''*(Note: This message was delayed due to connection issues)*''"

text \<open>
  The body of the \<open>for\<close> loop of \<open>flushPendingMessages\<close>, over the snapshot: a failed
  resolution or a failed send puts the message back at the tail of the live queue and the
  loop goes on. The drain is run without other requests in between.
\<close>

fun flush_loop :: "platform \<Rightarrow> pending list \<Rightarrow> server \<Rightarrow> server" where
  "flush_loop env [] s = s"
| "flush_loop env (msg # rest) s =
     (case getChannelByName s (channel_name msg) of
        Inl e \<Rightarrow> flush_loop env rest (s\<lparr>pendingMessages := pendingMessages s @ [msg]\<rparr>)
      | Inr ch \<Rightarrow>
          (case channel_send env ch (content msg @ delay_note) s of
             (Inl e, s') \<Rightarrow>
               flush_loop env rest (s'\<lparr>pendingMessages := pendingMessages s' @ [msg]\<rparr>)
           | (Inr u, s') \<Rightarrow> flush_loop env rest s'))"

definition flushPendingMessages :: "platform \<Rightarrow> server \<Rightarrow> server" where
  "flushPendingMessages env s =
     (if length (pendingMessages s) = 0 then s
      else let messages = pendingMessages s
           in flush_loop env messages (s\<lparr>pendingMessages := []\<rparr>))"

section \<open>Session manager\<close>

text \<open>The four handlers of \<open>setupDiscordEvents\<close>; the \<open>ready\<close> handler runs once.\<close>

definition on_ready :: "platform \<Rightarrow> server \<Rightarrow> server" where
  "on_ready env s =
     (if readyListener s
      then flushPendingMessages env (s\<lparr>ready := True, loggingIn := False, readyListener := False\<rparr>)
      else s)"

definition on_error :: "server \<Rightarrow> server" where
  "on_error s = s\<lparr>loggingIn := False\<rparr>"

definition on_shardDisconnect :: "server \<Rightarrow> server" where
  "on_shardDisconnect s = s\<lparr>ready := False\<rparr>"

definition on_shardReconnecting :: "server \<Rightarrow> server" where
  "on_shardReconnecting s = s"

text \<open>
  \<open>ensureConnected\<close> up to its first \<open>await\<close>: what the caller then does (it has
  returned, or it awaits a login attempt), and the state it leaves. The call of
  \<open>client.login\<close> happens here, when the attempt is created.
\<close>

datatype entry = Returned | Awaiting nat

definition ensureConnected_sync :: "server \<Rightarrow> entry \<times> server" where
  "ensureConnected_sync s =
     (if ready s then (Returned, s)
      else if loggingIn s then
        (case loginPromise s of
           Some p \<Rightarrow> (Awaiting p, s)
         | None \<Rightarrow> (Returned, s))
      else
        (let p = length (calls s) in
         (Awaiting p,
          s\<lparr>loggingIn := True, loginPromise := Some p, calls := calls s @ [Login],
            inflight := inflight s @ [p]\<rparr>)))"

text \<open>The \<open>finally\<close> block of a login attempt.\<close>

definition login_finally :: "nat \<Rightarrow> server \<Rightarrow> server" where
  "login_finally p s =
     s\<lparr>loggingIn := False, loginPromise := None, inflight := removeAll p (inflight s)\<rparr>"

text \<open>A login attempt from the answer of the platform to its settling.\<close>

definition login_settle :: "platform \<Rightarrow> nat \<Rightarrow> server \<Rightarrow> (error + unit) \<times> server" where
  "login_settle env p s =
     (case loginResult env p of
        LoginRejected msg \<Rightarrow> (Inl (OtherError msg), login_finally p s)
      | LoginReady \<Rightarrow> (Inr (), login_finally p (on_ready env s))
      | LoginErrorEvent msg \<Rightarrow> (Inl (OtherError msg), login_finally p (on_error s))
      | LoginTimeout \<Rightarrow> (Inl (OtherError ''Login timeout (15s)''), login_finally p s))"

text \<open>One call of \<open>ensureConnected\<close>, run to its end with no other request in between.\<close>

definition ensureConnected :: "platform \<Rightarrow> server \<Rightarrow> (error + unit) \<times> server" where
  "ensureConnected env s =
     (case ensureConnected_sync s of
        (Returned, s') \<Rightarrow> (Inr (), s')
      | (Awaiting p, s') \<Rightarrow> login_settle env p s')"

text \<open>
  What happens to the session, one step at a time: a request enters \<open>ensureConnected\<close>,
  the client emits an event, a login attempt runs its \<open>finally\<close> block, or a login
  attempt ends the way the platform says (the event that ends it and its \<open>finally\<close>
  block in one step).
\<close>

datatype event =
    CallEnsureConnected
  | EvReady
  | EvError
  | EvShardDisconnect
  | EvShardReconnecting
  | Settled nat
  | Completed nat

fun step :: "platform \<Rightarrow> server \<Rightarrow> event \<Rightarrow> server" where
  "step env s CallEnsureConnected = snd (ensureConnected_sync s)"
| "step env s EvReady = on_ready env s"
| "step env s EvError = on_error s"
| "step env s EvShardDisconnect = on_shardDisconnect s"
| "step env s EvShardReconnecting = on_shardReconnecting s"
| "step env s (Settled p) = (if p \<in> set (inflight s) then login_finally p s else s)"
| "step env s (Completed p) = (if p \<in> set (inflight s) then snd (login_settle env p s) else s)"

definition run :: "platform \<Rightarrow> server \<Rightarrow> event list \<Rightarrow> server" where
  "run env s evs = foldl (step env) s evs"

text \<open>\<open>n\<close> calls of \<open>ensureConnected\<close> entered one after the other.\<close>

fun ensureConnected_calls :: "nat \<Rightarrow> server \<Rightarrow> entry list \<times> server" where
  "ensureConnected_calls 0 s = ([], s)"
| "ensureConnected_calls (Suc n) s =
     (case ensureConnected_sync s of
        (e, s') \<Rightarrow> (case ensureConnected_calls n s' of (es, s'') \<Rightarrow> (e # es, s'')))"

section \<open>Read path\<close>

definition truthy :: "string option \<Rightarrow> bool" where
  "truthy v = (case v of None \<Rightarrow> False | Some x \<Rightarrow> x \<noteq> [])"

definition fetchLimit :: "int \<Rightarrow> bool \<Rightarrow> string option \<Rightarrow> int" where
  "fetchLimit limit unread_only reaction_filter =
     (if unread_only \<or> truthy reaction_filter then min (limit * 3) 100 else min limit 50)"

text \<open>\<open>m.reactions.cache.some(r => r.emoji.name === reaction_filter)\<close>\<close>

definition has_reaction :: "string \<Rightarrow> message \<Rightarrow> bool" where
  "has_reaction e m = list_ex (\<lambda>r. emoji_name r = e) (reactions m)"

text \<open>\<open>m.reactions.cache.find(r => r.emoji.name === '...' && r.me)\<close>, as a truth value.\<close>

definition own_check :: "message \<Rightarrow> bool" where
  "own_check m = (find (\<lambda>r. emoji_name r = check_mark \<and> me r) (reactions m) \<noteq> None)"

text \<open>\<open>xs.slice(0, n)\<close> for an integral \<open>n\<close>: a negative \<open>n\<close> counts from the end.\<close>

definition slice0 :: "int \<Rightarrow> 'a list \<Rightarrow> 'a list" where
  "slice0 n xs =
     (if n < 0 then take (nat (int (length xs) + n)) xs else take (nat n) xs)"

fun join :: "string \<Rightarrow> string list \<Rightarrow> string" where
  "join sep [] = []"
| "join sep [x] = x"
| "join sep (x # y # ys) = x @ sep @ join sep (y # ys)"

text \<open>The two filters, in the order of the code, over the messages as fetched.\<close>

definition read_filter :: "bool \<Rightarrow> string option \<Rightarrow> message list \<Rightarrow> message list" where
  "read_filter unread_only reaction_filter messages =
     (let filtered = messages;
          filtered = (case reaction_filter of
                        Some e \<Rightarrow> if e \<noteq> [] then filter (\<lambda>m. has_reaction e m) filtered
                                  else filtered
                      | None \<Rightarrow> filtered);
          filtered = (if unread_only then filter (\<lambda>m. \<not> own_check m) filtered else filtered)
      in filtered)"

text \<open>The messages that survive the filters and the truncation, in the order fetched.\<close>

definition read_select :: "int \<Rightarrow> bool \<Rightarrow> string option \<Rightarrow> message list \<Rightarrow> message list" where
  "read_select limit unread_only reaction_filter messages =
     slice0 limit (read_filter unread_only reaction_filter messages)"

definition format_line :: "platform \<Rightarrow> message \<Rightarrow> string" where
  "format_line env m =
     (let time = toISOString env (createdAt m);
          author = author_username m;
          isRead = (if own_check m then ''[READ]'' else ''[NEW]'')
      in ''ID:'' @ msg_id m @ '' '' @ isRead @ '' ['' @ time @ ''] '' @ author @ '': ''
           @ msg_content m)"

definition format_line_v100 :: "platform \<Rightarrow> message \<Rightarrow> string" where
  "format_line_v100 env m =
     (let time = toISOString env (createdAt m);
          author = author_username m;
          content = msg_content m;
          attachments = join '', '' (attachments m);
          id = msg_id m;
          isRead = (if own_check m then ''[READ]'' else ''[NEW]'');
          allReactions = join '' '' (map emoji_name (reactions m))
      in ''ID:'' @ id @ '' '' @ isRead @ '' ['' @ time @ ''] '' @ author @ '': '' @ content
           @ '' '' @ (if attachments \<noteq> [] then ''(Files: '' @ attachments @ '')'' else [])
           @ '' '' @ (if allReactions \<noteq> [] then ''(Reactions: '' @ allReactions @ '')'' else []))"

text \<open>The lines of the answer, in the order they are printed.\<close>

definition read_lines ::
  "(message \<Rightarrow> string) \<Rightarrow> int \<Rightarrow> bool \<Rightarrow> string option \<Rightarrow> message list \<Rightarrow> string list" where
  "read_lines fmt limit unread_only reaction_filter messages =
     rev (map fmt (read_select limit unread_only reaction_filter messages))"

definition read_text ::
  "(message \<Rightarrow> string) \<Rightarrow> int \<Rightarrow> bool \<Rightarrow> string option \<Rightarrow> message list \<Rightarrow> string" where
  "read_text fmt limit unread_only reaction_filter messages =
     (let formatted = join [CHR 0x0A] (read_lines fmt limit unread_only reaction_filter messages)
      in if formatted \<noteq> [] then formatted else ''No messages found.'')"

section \<open>Argument schemas\<close>

text \<open>
  The arguments of a request arrive untyped. The schemas are the four \<open>z.object\<close>
  declarations; a field is a string, a number or a boolean, required, optional, or
  optional with a default. All violated fields are reported together.
\<close>

datatype json =
    JUndefined
  | JNull
  | JBool bool
  | JNum int
  | JStr string
  | JArr "json list"
  | JObj "(string \<times> json) list"

definition field :: "(string \<times> json) list \<Rightarrow> string \<Rightarrow> json" where
  "field kvs k = (case map_of kvs k of Some v \<Rightarrow> v | None \<Rightarrow> JUndefined)"

fun z_string :: "string \<Rightarrow> json \<Rightarrow> issue list + string" where
  "z_string f (JStr x) = Inr x"
| "z_string f JUndefined = Inl [Required f]"
| "z_string f v = Inl [InvalidType f ''string'']"

fun z_number :: "string \<Rightarrow> json \<Rightarrow> issue list + int" where
  "z_number f (JNum x) = Inr x"
| "z_number f JUndefined = Inl [Required f]"
| "z_number f v = Inl [InvalidType f ''number'']"

fun z_boolean :: "string \<Rightarrow> json \<Rightarrow> issue list + bool" where
  "z_boolean f (JBool x) = Inr x"
| "z_boolean f JUndefined = Inl [Required f]"
| "z_boolean f v = Inl [InvalidType f ''boolean'']"

definition z_optional ::
  "(string \<Rightarrow> json \<Rightarrow> issue list + 'a) \<Rightarrow> string \<Rightarrow> json \<Rightarrow> issue list + 'a option" where
  "z_optional p f v =
     (if v = JUndefined then Inr None
      else case p f v of Inl is \<Rightarrow> Inl is | Inr x \<Rightarrow> Inr (Some x))"

definition z_default ::
  "'a \<Rightarrow> (string \<Rightarrow> json \<Rightarrow> issue list + 'a) \<Rightarrow> string \<Rightarrow> json \<Rightarrow> issue list + 'a" where
  "z_default d p f v = (if v = JUndefined then Inr d else p f v)"

definition issues_of :: "issue list + 'a \<Rightarrow> issue list" where
  "issues_of r = (case r of Inl is \<Rightarrow> is | Inr x \<Rightarrow> [])"

record read_args =
  read_channel_name :: string
  read_limit :: int
  read_unread_only :: bool
  read_reaction_filter :: "string option"

record send_args =
  send_channel_name :: string
  send_content :: string
  send_project_name :: "string option"

record reaction_args =
  reaction_channel_name :: string
  reaction_message_id :: string
  reaction_emoji :: string

record delete_args =
  delete_channel_name :: string
  delete_message_id :: string

definition ReadMessagesSchema :: "json \<Rightarrow> issue list + read_args" where
  "ReadMessagesSchema args =
     (case args of
        JObj kvs \<Rightarrow>
          (let c = z_string ''channel_name'' (field kvs ''channel_name'');
               l = z_default 10 z_number ''limit'' (field kvs ''limit'');
               u = z_default False z_boolean ''unread_only'' (field kvs ''unread_only'');
               r = z_optional z_string ''reaction_filter'' (field kvs ''reaction_filter'')
           in case (c, l, u, r) of
                (Inr cv, Inr lv, Inr uv, Inr rv) \<Rightarrow>
                  Inr \<lparr>read_channel_name = cv, read_limit = lv, read_unread_only = uv,
                       read_reaction_filter = rv\<rparr>
              | other \<Rightarrow> Inl (issues_of c @ issues_of l @ issues_of u @ issues_of r))
      | JUndefined \<Rightarrow> Inl [Required []]
      | other \<Rightarrow> Inl [InvalidType [] ''object''])"

definition SendMessageSchema :: "json \<Rightarrow> issue list + send_args" where
  "SendMessageSchema args =
     (case args of
        JObj kvs \<Rightarrow>
          (let c = z_string ''channel_name'' (field kvs ''channel_name'');
               t = z_string ''content'' (field kvs ''content'');
               p = z_optional z_string ''project_name'' (field kvs ''project_name'')
           in case (c, t, p) of
                (Inr cv, Inr tv, Inr pv) \<Rightarrow>
                  Inr \<lparr>send_channel_name = cv, send_content = tv, send_project_name = pv\<rparr>
              | other \<Rightarrow> Inl (issues_of c @ issues_of t @ issues_of p))
      | JUndefined \<Rightarrow> Inl [Required []]
      | other \<Rightarrow> Inl [InvalidType [] ''object''])"

text \<open>The schema of \<open>src/index.ts\<close> has no \<open>project_name\<close>.\<close>

definition SendMessageSchema_v100 :: "json \<Rightarrow> issue list + send_args" where
  "SendMessageSchema_v100 args =
     (case args of
        JObj kvs \<Rightarrow>
          (let c = z_string ''channel_name'' (field kvs ''channel_name'');
               t = z_string ''content'' (field kvs ''content'')
           in case (c, t) of
                (Inr cv, Inr tv) \<Rightarrow>
                  Inr \<lparr>send_channel_name = cv, send_content = tv, send_project_name = None\<rparr>
              | other \<Rightarrow> Inl (issues_of c @ issues_of t))
      | JUndefined \<Rightarrow> Inl [Required []]
      | other \<Rightarrow> Inl [InvalidType [] ''object''])"

definition ReactionSchema :: "json \<Rightarrow> issue list + reaction_args" where
  "ReactionSchema args =
     (case args of
        JObj kvs \<Rightarrow>
          (let c = z_string ''channel_name'' (field kvs ''channel_name'');
               m = z_string ''message_id'' (field kvs ''message_id'');
               e = z_default check_mark z_string ''emoji'' (field kvs ''emoji'')
           in case (c, m, e) of
                (Inr cv, Inr mv, Inr ev) \<Rightarrow>
                  Inr \<lparr>reaction_channel_name = cv, reaction_message_id = mv, reaction_emoji = ev\<rparr>
              | other \<Rightarrow> Inl (issues_of c @ issues_of m @ issues_of e))
      | JUndefined \<Rightarrow> Inl [Required []]
      | other \<Rightarrow> Inl [InvalidType [] ''object''])"

definition DeleteMessageSchema :: "json \<Rightarrow> issue list + delete_args" where
  "DeleteMessageSchema args =
     (case args of
        JObj kvs \<Rightarrow>
          (let c = z_string ''channel_name'' (field kvs ''channel_name'');
               m = z_string ''message_id'' (field kvs ''message_id'')
           in case (c, m) of
                (Inr cv, Inr mv) \<Rightarrow> Inr \<lparr>delete_channel_name = cv, delete_message_id = mv\<rparr>
              | other \<Rightarrow> Inl (issues_of c @ issues_of m))
      | JUndefined \<Rightarrow> Inl [Required []]
      | other \<Rightarrow> Inl [InvalidType [] ''object''])"

section \<open>Request dispatcher of the resilient draft\<close>

text \<open>\<open>haystack.includes(needle)\<close>\<close>

fun str_includes :: "string \<Rightarrow> string \<Rightarrow> bool" where
  "str_includes [] needle = (needle = [])"
| "str_includes (c # cs) needle =
     (take (length needle) (c # cs) = needle \<or> str_includes cs needle)"

definition error_message :: "error \<Rightarrow> string" where
  "error_message e = (case e of McpError c m \<Rightarrow> m | ZodError is \<Rightarrow> [] | OtherError m \<Rightarrow> m)"

definition suggestion :: "error \<Rightarrow> string" where
  "suggestion e =
     (let isAuthError = (str_includes (error_message e) ''Token''
                        \<or> str_includes (error_message e) ''Auth'')
      in if isAuthError then
     [CHR 0xE8, CHR 0xA8, CHR 0xAD, CHR 0xE5, CHR 0xAE, CHR 0x9A, CHR 0xE3, CHR 0x82,
     CHR 0x92, CHR 0xE3, CHR 0x81, CHR 0x94, CHR 0xE7, CHR 0xA2, CHR 0xBA, CHR 0xE8,
     CHR 0xAA, CHR 0x8D, CHR 0xE3, CHR 0x81, CHR 0x8F, CHR 0xE3, CHR 0x81, CHR 0xA0,
     CHR 0xE3, CHR 0x81, CHR 0x95, CHR 0xE3, CHR 0x81, CHR 0x84, CHR 0xE3, CHR 0x80,
     CHR 0x82]
         else
     [CHR 0xE6, CHR 0x8E, CHR 0xA5, CHR 0xE7, CHR 0xB6, CHR 0x9A, CHR 0xE3, CHR 0x81,
     CHR 0x8C, CHR 0xE4, CHR 0xB8, CHR 0x8D, CHR 0xE5, CHR 0xAE, CHR 0x89, CHR 0xE5,
     CHR 0xAE, CHR 0x9A, CHR 0xE3, CHR 0x81, CHR 0xAA, CHR 0xE3, CHR 0x82, CHR 0x88,
     CHR 0xE3, CHR 0x81, CHR 0x86, CHR 0xE3, CHR 0x81, CHR 0xA7, CHR 0xE3, CHR 0x81,
     CHR 0x99, CHR 0xE3, CHR 0x80, CHR 0x82, CHR 0x56, CHR 0x53, CHR 0x43, CHR 0x6F,
     CHR 0x64, CHR 0x65, CHR 0xE3, CHR 0x82, CHR 0xA6, CHR 0xE3, CHR 0x82, CHR 0xA3,
     CHR 0xE3, CHR 0x83, CHR 0xB3, CHR 0xE3, CHR 0x83, CHR 0x89, CHR 0xE3, CHR 0x82,
     CHR 0xA6, CHR 0xE3, CHR 0x82, CHR 0x92, CHR 0xE3, CHR 0x83, CHR 0xAA, CHR 0xE3,
     CHR 0x83, CHR 0xAD, CHR 0xE3, CHR 0x83, CHR 0xBC, CHR 0xE3, CHR 0x83, CHR 0x89,
     CHR 0x28, CHR 0x43, CHR 0x74, CHR 0x72, CHR 0x6C, CHR 0x2B, CHR 0x52, CHR 0x29,
     CHR 0xE3, CHR 0x81, CHR 0x99, CHR 0xE3, CHR 0x82, CHR 0x8B, CHR 0xE3, CHR 0x81,
     CHR 0xA8, CHR 0xE6, CHR 0x94, CHR 0xB9, CHR 0xE5, CHR 0x96, CHR 0x84, CHR 0xE3,
     CHR 0x81, CHR 0x99, CHR 0xE3, CHR 0x82, CHR 0x8B, CHR 0xE5, CHR 0xA0, CHR 0xB4,
     CHR 0xE5, CHR 0x90, CHR 0x88, CHR 0xE3, CHR 0x81, CHR 0x8C, CHR 0xE3, CHR 0x81,
     CHR 0x82, CHR 0xE3, CHR 0x82, CHR 0x8A, CHR 0xE3, CHR 0x81, CHR 0xBE, CHR 0xE3,
     CHR 0x81, CHR 0x99, CHR 0xE3, CHR 0x80, CHR 0x82])"

definition queue_notice :: "error \<Rightarrow> string" where
  "queue_notice e =
     [CHR 0xE2, CHR 0x9A, CHR 0xA0, CHR 0xEF, CHR 0xB8, CHR 0x8F, CHR 0x20]
     @ ''[QUEUE] '' @
     [CHR 0xE3, CHR 0x83, CHR 0xA1, CHR 0xE3, CHR 0x83, CHR 0x83, CHR 0xE3, CHR 0x82,
     CHR 0xBB, CHR 0xE3, CHR 0x83, CHR 0xBC, CHR 0xE3, CHR 0x82, CHR 0xB8, CHR 0xE3,
     CHR 0x82, CHR 0x92, CHR 0xE9, CHR 0x80, CHR 0x81, CHR 0xE4, CHR 0xBF, CHR 0xA1,
     CHR 0xE5, CHR 0xBE, CHR 0x85, CHR 0xE3, CHR 0x81, CHR 0xA1, CHR 0xE3, CHR 0x83,
     CHR 0xAA, CHR 0xE3, CHR 0x82, CHR 0xB9, CHR 0xE3, CHR 0x83, CHR 0x88, CHR 0xE3,
     CHR 0x81, CHR 0xAB, CHR 0xE4, CHR 0xBF, CHR 0x9D, CHR 0xE5, CHR 0xAD, CHR 0x98,
     CHR 0xE3, CHR 0x81, CHR 0x97, CHR 0xE3, CHR 0x81, CHR 0xBE, CHR 0xE3, CHR 0x81,
     CHR 0x97, CHR 0xE3, CHR 0x81, CHR 0x9F, CHR 0xE3, CHR 0x80, CHR 0x82]
     @ [CHR 0x0A] @ suggestion e @ [CHR 0x0A] @
     [CHR 0x28, CHR 0xE7, CHR 0x8F, CHR 0xBE, CHR 0xE5, CHR 0x9C, CHR 0xA8, CHR 0xE3,
     CHR 0x80, CHR 0x81, CHR 0xE5, CHR 0x86, CHR 0x8D, CHR 0xE6, CHR 0x8E, CHR 0xA5,
     CHR 0xE7, CHR 0xB6, CHR 0x9A, CHR 0xE3, CHR 0x82, CHR 0x92, CHR 0xE8, CHR 0xA9,
     CHR 0xA6, CHR 0xE3, CHR 0x81, CHR 0xBF, CHR 0xE3, CHR 0x81, CHR 0xA6, CHR 0xE3,
     CHR 0x81, CHR 0x84, CHR 0xE3, CHR 0x81, CHR 0xBE, CHR 0xE3, CHR 0x81, CHR 0x99,
     CHR 0x2E, CHR 0x2E, CHR 0x2E, CHR 0x29]"

text \<open>The \<open>try\<close> block of the \<open>send_message\<close> case.\<close>

definition send_attempt ::
  "platform \<Rightarrow> string \<Rightarrow> string \<Rightarrow> server \<Rightarrow> (error + unit) \<times> server" where
  "send_attempt env name messageContent s =
     (case ensureConnected env s of
        (Inl e, s1) \<Rightarrow> (Inl e, s1)
      | (Inr u, s1) \<Rightarrow>
          (case getChannelByName s1 name of
             Inl e \<Rightarrow> (Inl e, s1)
           | Inr ch \<Rightarrow> channel_send env ch messageContent s1))"

text \<open>The text that is sent or queued: the content behind the project name, if there is one.\<close>

definition messageContent :: "platform \<Rightarrow> send_args \<Rightarrow> string" where
  "messageContent env a =
     (let project = (case send_project_name a of
                       Some p \<Rightarrow> if p \<noteq> [] then p else projectName env
                     | None \<Rightarrow> projectName env)
      in if project \<noteq> [] then ''['' @ project @ ''] '' @ send_content a else send_content a)"

definition send_message :: "platform \<Rightarrow> json \<Rightarrow> server \<Rightarrow> (error + string) \<times> server" where
  "send_message env args s =
     (case SendMessageSchema args of
        Inl is \<Rightarrow> (Inl (ZodError is), s)
      | Inr a \<Rightarrow>
          (case send_attempt env (send_channel_name a) (messageContent env a) s of
             (Inr u, s') \<Rightarrow> (Inr (check_mark @ '' Message sent to #'' @ send_channel_name a), s')
           | (Inl e, s') \<Rightarrow>
               (Inr (queue_notice e),
                s'\<lparr>pendingMessages :=
                     pendingMessages s'
                       @ [\<lparr>channel_name = send_channel_name a, content = messageContent env a\<rparr>]\<rparr>)))"

definition emoji_or_check :: "string \<Rightarrow> string" where
  "emoji_or_check e = (if e \<noteq> [] then e else check_mark)"

definition read_recent_messages ::
  "platform \<Rightarrow> json \<Rightarrow> server \<Rightarrow> (error + string) \<times> server" where
  "read_recent_messages env args s =
     (case ReadMessagesSchema args of
        Inl is \<Rightarrow> (Inl (ZodError is), s)
      | Inr a \<Rightarrow>
          (case getChannelByName s (read_channel_name a) of
             Inl e \<Rightarrow> (Inl e, s)
           | Inr ch \<Rightarrow>
               (case messages_fetch env ch
                       (fetchLimit (read_limit a) (read_unread_only a) (read_reaction_filter a)) s of
                  (Inl e, s') \<Rightarrow> (Inl e, s')
                | (Inr ms, s') \<Rightarrow>
                    (Inr (read_text (format_line env) (read_limit a) (read_unread_only a)
                            (read_reaction_filter a) ms), s'))))"

definition add_reaction :: "platform \<Rightarrow> json \<Rightarrow> server \<Rightarrow> (error + string) \<times> server" where
  "add_reaction env args s =
     (case ReactionSchema args of
        Inl is \<Rightarrow> (Inl (ZodError is), s)
      | Inr a \<Rightarrow>
          (case getChannelByName s (reaction_channel_name a) of
             Inl e \<Rightarrow> (Inl e, s)
           | Inr ch \<Rightarrow>
               (case message_fetch env ch (reaction_message_id a) s of
                  (Inl e, s') \<Rightarrow> (Inl e, s')
                | (Inr m, s') \<Rightarrow>
                    (case message_react env m (emoji_or_check (reaction_emoji a)) s' of
                       (Inl e, s'') \<Rightarrow> (Inl e, s'')
                     | (Inr u, s'') \<Rightarrow>
                         (Inr (''Added '' @ emoji_or_check (reaction_emoji a) @ '' to message ''
                                 @ reaction_message_id a), s'')))))"

text \<open>The outer \<open>catch\<close>: a validation failure becomes an \<open>McpError\<close>, anything else is rethrown.\<close>

definition catch_zod :: "platform \<Rightarrow> (error + 'a) \<times> server \<Rightarrow> (error + 'a) \<times> server" where
  "catch_zod env r =
     (case r of
        (Inl (ZodError is), s) \<Rightarrow>
          (Inl (McpError InvalidParams
                  (''Invalid arguments: '' @ join '', '' (map (issueMessage env) is))), s)
      | other \<Rightarrow> r)"

definition callTool :: "platform \<Rightarrow> string \<Rightarrow> json \<Rightarrow> server \<Rightarrow> (error + string) \<times> server" where
  "callTool env name args s =
     catch_zod env
       (case (if name \<noteq> ''send_message'' then ensureConnected env s else (Inr (), s)) of
          (Inl e, s') \<Rightarrow> (Inl e, s')
        | (Inr u, s') \<Rightarrow>
            (if name = ''read_recent_messages'' then read_recent_messages env args s'
             else if name = ''send_message'' then send_message env args s'
             else if name = ''add_reaction'' then add_reaction env args s'
             else (Inl (McpError MethodNotFound (''Unknown tool: '' @ name)), s')))"

section \<open>Request dispatcher of src/index.ts\<close>

definition read_recent_messages_v100 ::
  "platform \<Rightarrow> json \<Rightarrow> server \<Rightarrow> (error + string) \<times> server" where
  "read_recent_messages_v100 env args s =
     (case ReadMessagesSchema args of
        Inl is \<Rightarrow> (Inl (ZodError is), s)
      | Inr a \<Rightarrow>
          (case getChannelByName_v100 s (read_channel_name a) of
             Inl e \<Rightarrow> (Inl e, s)
           | Inr ch \<Rightarrow>
               (case messages_fetch env ch
                       (fetchLimit (read_limit a) (read_unread_only a) (read_reaction_filter a)) s of
                  (Inl e, s') \<Rightarrow> (Inl e, s')
                | (Inr ms, s') \<Rightarrow>
                    (Inr (read_text (format_line_v100 env) (read_limit a) (read_unread_only a)
                            (read_reaction_filter a) ms), s'))))"

definition send_message_v100 ::
  "platform \<Rightarrow> json \<Rightarrow> server \<Rightarrow> (error + string) \<times> server" where
  "send_message_v100 env args s =
     (case SendMessageSchema_v100 args of
        Inl is \<Rightarrow> (Inl (ZodError is), s)
      | Inr a \<Rightarrow>
          (case getChannelByName_v100 s (send_channel_name a) of
             Inl e \<Rightarrow> (Inl e, s)
           | Inr ch \<Rightarrow>
               (case channel_send env ch (send_content a) s of
                  (Inl e, s') \<Rightarrow> (Inl e, s')
                | (Inr u, s') \<Rightarrow> (Inr (''Message sent to #'' @ send_channel_name a), s'))))"

definition add_reaction_v100 ::
  "platform \<Rightarrow> json \<Rightarrow> server \<Rightarrow> (error + string) \<times> server" where
  "add_reaction_v100 env args s =
     (case ReactionSchema args of
        Inl is \<Rightarrow> (Inl (ZodError is), s)
      | Inr a \<Rightarrow>
          (case getChannelByName_v100 s (reaction_channel_name a) of
             Inl e \<Rightarrow> (Inl e, s)
           | Inr ch \<Rightarrow>
               (case message_fetch env ch (reaction_message_id a) s of
                  (Inl e, s') \<Rightarrow> (Inl e, s')
                | (Inr m, s') \<Rightarrow>
                    (case message_react env m (emoji_or_check (reaction_emoji a)) s' of
                       (Inl e, s'') \<Rightarrow> (Inl e, s'')
                     | (Inr u, s'') \<Rightarrow>
                         (Inr (''Added '' @ emoji_or_check (reaction_emoji a) @ '' to message ''
                                 @ reaction_message_id a), s'')))))"

definition remove_reaction_v100 ::
  "platform \<Rightarrow> json \<Rightarrow> server \<Rightarrow> (error + string) \<times> server" where
  "remove_reaction_v100 env args s =
     (case ReactionSchema args of
        Inl is \<Rightarrow> (Inl (ZodError is), s)
      | Inr a \<Rightarrow>
          (case getChannelByName_v100 s (reaction_channel_name a) of
             Inl e \<Rightarrow> (Inl e, s)
           | Inr ch \<Rightarrow>
               (case message_fetch env ch (reaction_message_id a) s of
                  (Inl e, s') \<Rightarrow> (Inl e, s')
                | (Inr m, s') \<Rightarrow>
                    (case find (\<lambda>r. emoji_name r = emoji_or_check (reaction_emoji a))
                            (reactions m) of
                       Some reaction \<Rightarrow>
                         (case reaction_users_remove env m (emoji_name reaction) s' of
                            (Inl e, s'') \<Rightarrow> (Inl e, s'')
                          | (Inr u, s'') \<Rightarrow>
                              (Inr (''Removed '' @ emoji_or_check (reaction_emoji a)
                                      @ '' from message '' @ reaction_message_id a), s''))
                     | None \<Rightarrow>
                         (Inr (''Reaction '' @ emoji_or_check (reaction_emoji a)
                                 @ '' not found on message '' @ reaction_message_id a), s')))))"

definition delete_message_v100 ::
  "platform \<Rightarrow> json \<Rightarrow> server \<Rightarrow> (error + string) \<times> server" where
  "delete_message_v100 env args s =
     (case DeleteMessageSchema args of
        Inl is \<Rightarrow> (Inl (ZodError is), s)
      | Inr a \<Rightarrow>
          (case getChannelByName_v100 s (delete_channel_name a) of
             Inl e \<Rightarrow> (Inl e, s)
           | Inr ch \<Rightarrow>
               (case message_fetch env ch (delete_message_id a) s of
                  (Inl e, s') \<Rightarrow> (Inl e, s')
                | (Inr m, s') \<Rightarrow>
                    (case message_delete env m s' of
                       (Inl e, s'') \<Rightarrow> (Inl e, s'')
                     | (Inr u, s'') \<Rightarrow>
                         (Inr (''Deleted message '' @ delete_message_id a), s'')))))"

definition callTool_v100 ::
  "platform \<Rightarrow> string \<Rightarrow> json \<Rightarrow> server \<Rightarrow> (error + string) \<times> server" where
  "callTool_v100 env name args s =
     catch_zod env
       (if name = ''read_recent_messages'' then read_recent_messages_v100 env args s
        else if name = ''send_message'' then send_message_v100 env args s
        else if name = ''add_reaction'' then add_reaction_v100 env args s
        else if name = ''remove_reaction'' then remove_reaction_v100 env args s
        else if name = ''delete_message'' then delete_message_v100 env args s
        else (Inl (McpError MethodNotFound (''Unknown tool: '' @ name)), s))"

section \<open>Notions used in the statements\<close>



text \<open>
  The names of the tools each dispatcher handles; they are also the names its
  \<open>ListTools\<close> handler lists.
\<close>

definition tools_v100 :: "string list" where
  "tools_v100 = [''read_recent_messages'', ''send_message'', ''add_reaction'',
                 ''remove_reaction'', ''delete_message'']"

definition tools :: "string list" where
  "tools = [''read_recent_messages'', ''send_message'', ''add_reaction'']"

text \<open>
  Single flight: while \<open>loggingIn\<close> is set, exactly the attempt that \<open>loginPromise\<close>
  holds is in flight; while it is clear, none is.
\<close>

definition single_flight :: "server \<Rightarrow> bool" where
  "single_flight s \<longleftrightarrow>
     (if loggingIn s then (case loginPromise s of Some p \<Rightarrow> inflight s = [p] | None \<Rightarrow> False)
      else inflight s = [])"

section \<open>A small installation, for the examples\<close>

definition general :: channel where
  "general = \<lparr>chan_id = 1, chan_name = ''general'', isTextBased = True\<rparr>"

definition lobby :: channel where
  "lobby = \<lparr>chan_id = 2, chan_name = ''lobby'', isTextBased = False\<rparr>"

definition m1 :: message where
  "m1 = \<lparr>msg_id = ''101'', createdAt = 10, author_username = ''alice'', msg_content = ''one'',
         attachments = [], reactions = []\<rparr>"

definition m2 :: message where
  "m2 = \<lparr>msg_id = ''102'', createdAt = 20, author_username = ''bob'', msg_content = ''two'',
         attachments = [], reactions = [\<lparr>emoji_name = check_mark, me = True\<rparr>]\<rparr>"

definition m3 :: message where
  "m3 = \<lparr>msg_id = ''103'', createdAt = 30, author_username = ''carol'', msg_content = ''three'',
         attachments = [], reactions = [\<lparr>emoji_name = ''eyes'', me = False\<rparr>]\<rparr>"

text \<open>The channel history, newest first, as the platform delivers it.\<close>

definition history :: "message list" where
  "history = [m3, m2, m1]"

text \<open>A platform on which every call succeeds.\<close>

definition online :: platform where
  "online =
     \<lparr>loginResult = (\<lambda>p. LoginReady),
      sendResult = (\<lambda>tr. None),
      fetchResult = (\<lambda>tr. case last tr of
                            Fetch ch n \<Rightarrow> Inr (take (nat n) history)
                          | other \<Rightarrow> Inl ''unexpected call''),
      fetchMessageResult = (\<lambda>tr. case last tr of
                            FetchMessage ch i \<Rightarrow>
                              (case find (\<lambda>m. msg_id m = i) history of
                                 Some m \<Rightarrow> Inr m
                               | None \<Rightarrow> Inl ''Unknown Message'')
                          | other \<Rightarrow> Inl ''unexpected call''),
      reactResult = (\<lambda>tr. None),
      removeResult = (\<lambda>tr. None),
      deleteResult = (\<lambda>tr. None),
      toISOString = (\<lambda>t. ''1970-01-01T00:00:00.0'' @ (if t = 10 then ''10'' else if t = 20 then ''20''
                                                     else ''30'') @ ''Z''),
      issueMessage = (\<lambda>i. case i of Required f \<Rightarrow> ''Required''
                                  | InvalidType f ty \<Rightarrow> ''Expected '' @ ty),
      projectName = ''mcp-servers''\<rparr>"

text \<open>The same platform when the login is refused.\<close>

definition offline :: platform where
  "offline = online\<lparr>loginResult := (\<lambda>p. LoginRejected ''An invalid token was provided.'')\<rparr>"

text \<open>The server as its constructor leaves it, and the server once the session is up.\<close>

definition fresh_server :: server where
  "fresh_server =
     \<lparr>ready = False, loggingIn = False, pendingMessages = [], loginPromise = None,
      guilds = [[lobby, general]], readyListener = True, calls = [], delivered = [],
      inflight = []\<rparr>"

definition ready_server :: server where
  "ready_server = fresh_server\<lparr>ready := True, readyListener := False\<rparr>"

section \<open>Properties of the channel resolver\<close>

lemma find_SomeD: "find P xs = Some x \<Longrightarrow> x \<in> set xs \<and> P x"
  by (induction xs) (auto split: if_splits)

lemma find_channel_None:
  "find_channel gs name = None \<longleftrightarrow>
     (\<forall>g \<in> set gs. \<forall>c \<in> set g. \<not> (chan_name c = name \<and> isTextBased c))"
proof (induction gs)
  case Nil
  show ?case by simp
next
  case (Cons g gs)
  show ?case
  proof (cases "find (\<lambda>c. chan_name c = name \<and> isTextBased c) g")
    case None
    then have "\<forall>c \<in> set g. \<not> (chan_name c = name \<and> isTextBased c)"
      by (simp add: find_None_iff)
    with Cons show ?thesis unfolding find_channel.simps None by simp
  next
    case (Some c)
    from find_SomeD[OF Some] show ?thesis by (auto simp: Some)
  qed
qed


section \<open>Properties of the read path\<close>











lemma getChannelByName_v100_Inr:
  "getChannelByName_v100 s name = Inr ch \<longleftrightarrow> getChannelByName s name = Inr ch"
  by (auto simp: getChannelByName_v100_def getChannelByName_def split: option.splits)

lemma general_resolves: "getChannelByName ready_server ''general'' = Inr general"
  by (simp add: getChannelByName_def ready_server_def fresh_server_def general_def lobby_def)











section \<open>Properties of the drain\<close>






text \<open>Three queued messages, the second for a channel that does not exist.\<close>

lemma drain_example:
  "flushPendingMessages online
     (ready_server\<lparr>pendingMessages :=
        [\<lparr>channel_name = ''general'', content = ''a''\<rparr>,
         \<lparr>channel_name = ''nowhere'', content = ''b''\<rparr>,
         \<lparr>channel_name = ''general'', content = ''c''\<rparr>]\<rparr>)
   = ready_server
       \<lparr>pendingMessages := [\<lparr>channel_name = ''nowhere'', content = ''b''\<rparr>],
        calls := [Send general (''a'' @ delay_note), Send general (''c'' @ delay_note)],
        delivered := [(general, ''a'' @ delay_note), (general, ''c'' @ delay_note)]\<rparr>"
  by (simp add: flushPendingMessages_def getChannelByName_def channel_send_def online_def
        ready_server_def fresh_server_def general_def lobby_def Let_def)

section \<open>Properties of the dispatchers\<close>

text \<open>
  C9. In \<open>src/index.ts\<close>, a \<open>remove_reaction\<close> request whose arguments parse, whose
  channel resolves and whose message is fetched, the message carrying no reaction of the
  requested emoji (the check mark when the emoji is empty), is answered with the text
  that the reaction was not found on the message: no error, and the fetch of the message
  is the only platform call made, so nothing is asked to be removed.
\<close>

theorem remove_reaction_absent:
  assumes "ReactionSchema args = Inr a"
    and "getChannelByName_v100 s (reaction_channel_name a) = Inr ch"
    and "fetchMessageResult env (calls s @ [FetchMessage ch (reaction_message_id a)]) = Inr m"
    and "\<forall>r \<in> set (reactions m). emoji_name r \<noteq> emoji_or_check (reaction_emoji a)"
  shows "callTool_v100 env ''remove_reaction'' args s =
           (Inr (''Reaction '' @ emoji_or_check (reaction_emoji a) @ '' not found on message ''
                   @ reaction_message_id a),
            s\<lparr>calls := calls s @ [FetchMessage ch (reaction_message_id a)]\<rparr>)"
proof -
  have f: "message_fetch env ch (reaction_message_id a) s
             = (Inr m, s\<lparr>calls := calls s @ [FetchMessage ch (reaction_message_id a)]\<rparr>)"
    using assms(3) by (simp add: message_fetch_def Let_def)
  have n: "find (\<lambda>r. emoji_name r = emoji_or_check (reaction_emoji a)) (reactions m) = None"
    using assms(4) by (simp add: find_None_iff)
  have "remove_reaction_v100 env args s =
           (Inr (''Reaction '' @ emoji_or_check (reaction_emoji a) @ '' not found on message ''
                   @ reaction_message_id a),
            s\<lparr>calls := calls s @ [FetchMessage ch (reaction_message_id a)]\<rparr>)"
    by (simp add: remove_reaction_v100_def assms(1,2) f n)
  then show ?thesis by (simp add: callTool_v100_def catch_zod_def)
qed

lemma parse_reaction_example:
  "ReactionSchema (JObj [(''channel_name'', JStr ''general''), (''message_id'', JStr ''101'')])
     = Inr \<lparr>reaction_channel_name = ''general'', reaction_message_id = ''101'',
            reaction_emoji = check_mark\<rparr>"
  by (simp add: ReactionSchema_def field_def z_default_def)

lemma general_resolves_v100: "getChannelByName_v100 ready_server ''general'' = Inr general"
  by (simp add: getChannelByName_v100_Inr general_resolves)

lemma fetch_101: "fetchMessageResult online (calls ready_server @ [FetchMessage general ''101'']) = Inr m1"
  by (simp add: online_def history_def m1_def m2_def m3_def ready_server_def fresh_server_def)

theorem remove_reaction_absent_witness:
  "callTool_v100 online ''remove_reaction''
      (JObj [(''channel_name'', JStr ''general''), (''message_id'', JStr ''101'')]) ready_server
     = (Inr (''Reaction '' @ check_mark @ '' not found on message 101''),
        ready_server\<lparr>calls := [FetchMessage general ''101'']\<rparr>)"
  using remove_reaction_absent[OF parse_reaction_example, of ready_server general online m1]
    general_resolves_v100 fetch_101
  by (simp add: emoji_or_check_def check_mark_def m1_def)
     (simp add: ready_server_def fresh_server_def)


lemma ensureConnected_ready: "ready s \<Longrightarrow> ensureConnected env s = (Inr (), s)"
  by (simp add: ensureConnected_def ensureConnected_sync_def)

lemma catch_zod_McpError: "catch_zod env (Inl (McpError c m), s) = (Inl (McpError c m), s)"
  by (simp add: catch_zod_def)

lemma catch_zod_OtherError: "catch_zod env (Inl (OtherError m), s) = (Inl (OtherError m), s)"
  by (simp add: catch_zod_def)

lemma catch_zod_Inr: "catch_zod env (Inr x, s) = (Inr x, s)"
  by (simp add: catch_zod_def)

text \<open>
  C4 (as amended). While the session is ready, when no text channel of the requested
  name exists in any guild, the resolver fails with an \<open>McpError\<close> of code
  \<open>InvalidParams\<close> whose message names the channel, and every operation but the
  queueing \<open>send_message\<close> of the resilient draft fails with that error and leaves the
  state as it was.
\<close>

theorem channel_not_found:
  assumes "ready s"
    and "\<forall>g \<in> set (guilds s). \<forall>c \<in> set g. \<not> (chan_name c = name \<and> isTextBased c)"
  shows "getChannelByName s name
           = Inl (McpError InvalidParams (''Channel #'' @ name @ '' not found.''))
     \<and> getChannelByName_v100 s name
           = Inl (McpError InvalidParams (''Channel #'' @ name @ '' not found in any guild.''))
     \<and> (\<forall>a. ReadMessagesSchema args = Inr a \<and> read_channel_name a = name \<longrightarrow>
           callTool env ''read_recent_messages'' args s
             = (Inl (McpError InvalidParams (''Channel #'' @ name @ '' not found.'')), s)
         \<and> callTool_v100 env ''read_recent_messages'' args s
             = (Inl (McpError InvalidParams (''Channel #'' @ name @ '' not found in any guild.'')), s))
     \<and> (\<forall>a. ReactionSchema args = Inr a \<and> reaction_channel_name a = name \<longrightarrow>
           callTool env ''add_reaction'' args s
             = (Inl (McpError InvalidParams (''Channel #'' @ name @ '' not found.'')), s)
         \<and> callTool_v100 env ''add_reaction'' args s
             = (Inl (McpError InvalidParams (''Channel #'' @ name @ '' not found in any guild.'')), s)
         \<and> callTool_v100 env ''remove_reaction'' args s
             = (Inl (McpError InvalidParams (''Channel #'' @ name @ '' not found in any guild.'')), s))
     \<and> (\<forall>a. SendMessageSchema_v100 args = Inr a \<and> send_channel_name a = name \<longrightarrow>
           callTool_v100 env ''send_message'' args s
             = (Inl (McpError InvalidParams (''Channel #'' @ name @ '' not found in any guild.'')), s))
     \<and> (\<forall>a. DeleteMessageSchema args = Inr a \<and> delete_channel_name a = name \<longrightarrow>
           callTool_v100 env ''delete_message'' args s
             = (Inl (McpError InvalidParams (''Channel #'' @ name @ '' not found in any guild.'')), s))"
proof -
  have none: "find_channel (guilds s) name = None"
    using assms(2) by (simp add: find_channel_None)
  have r: "getChannelByName s name
           = Inl (McpError InvalidParams (''Channel #'' @ name @ '' not found.''))"
    using assms(1) none by (simp add: getChannelByName_def)
  have r0: "getChannelByName_v100 s name
           = Inl (McpError InvalidParams (''Channel #'' @ name @ '' not found in any guild.''))"
    using assms(1) none by (simp add: getChannelByName_v100_def)
  have ec: "ensureConnected env s = (Inr (), s)"
    using assms(1) by (rule ensureConnected_ready)
  have rd: "callTool env ''read_recent_messages'' args s
             = (Inl (McpError InvalidParams (''Channel #'' @ name @ '' not found.'')), s)
         \<and> callTool_v100 env ''read_recent_messages'' args s
             = (Inl (McpError InvalidParams (''Channel #'' @ name @ '' not found in any guild.'')), s)"
    if "ReadMessagesSchema args = Inr a" "read_channel_name a = name" for a
    using that r r0
    by (simp add: callTool_def callTool_v100_def ec read_recent_messages_def
          read_recent_messages_v100_def catch_zod_def)
  have re: "callTool env ''add_reaction'' args s
             = (Inl (McpError InvalidParams (''Channel #'' @ name @ '' not found.'')), s)
         \<and> callTool_v100 env ''add_reaction'' args s
             = (Inl (McpError InvalidParams (''Channel #'' @ name @ '' not found in any guild.'')), s)
         \<and> callTool_v100 env ''remove_reaction'' args s
             = (Inl (McpError InvalidParams (''Channel #'' @ name @ '' not found in any guild.'')), s)"
    if "ReactionSchema args = Inr a" "reaction_channel_name a = name" for a
    using that r r0
    by (simp add: callTool_def callTool_v100_def ec add_reaction_def add_reaction_v100_def
          remove_reaction_v100_def catch_zod_def)
  have se: "callTool_v100 env ''send_message'' args s
             = (Inl (McpError InvalidParams (''Channel #'' @ name @ '' not found in any guild.'')), s)"
    if "SendMessageSchema_v100 args = Inr a" "send_channel_name a = name" for a
    using that r0 by (simp add: callTool_v100_def send_message_v100_def catch_zod_def)
  have de: "callTool_v100 env ''delete_message'' args s
             = (Inl (McpError InvalidParams (''Channel #'' @ name @ '' not found in any guild.'')), s)"
    if "DeleteMessageSchema args = Inr a" "delete_channel_name a = name" for a
    using that r0 by (simp add: callTool_v100_def delete_message_v100_def catch_zod_def)
  from r r0 rd re se de show ?thesis by blast
qed

lemma parse_reaction_x:
  "ReactionSchema (JObj [(''channel_name'', JStr ''x''), (''message_id'', JStr ''123'')])
     = Inr \<lparr>reaction_channel_name = ''x'', reaction_message_id = ''123'',
            reaction_emoji = check_mark\<rparr>"
  by (simp add: ReactionSchema_def field_def z_default_def)

lemma no_channel_x:
  "\<forall>g \<in> set (guilds ready_server). \<forall>c \<in> set g. \<not> (chan_name c = ''x'' \<and> isTextBased c)"
  by (simp add: ready_server_def fresh_server_def general_def lobby_def)

lemma ready_ready_server: "ready ready_server"
  by (simp add: ready_server_def)

theorem channel_not_found_witness:
  "ready ready_server
   \<and> getChannelByName ready_server ''x'' = Inl (McpError InvalidParams ''Channel #x not found.'')
   \<and> callTool online ''add_reaction''
        (JObj [(''channel_name'', JStr ''x''), (''message_id'', JStr ''123'')]) ready_server
       = (Inl (McpError InvalidParams ''Channel #x not found.''), ready_server)
   \<and> callTool_v100 online ''remove_reaction''
        (JObj [(''channel_name'', JStr ''x''), (''message_id'', JStr ''123'')]) ready_server
       = (Inl (McpError InvalidParams ''Channel #x not found in any guild.''), ready_server)"
  using channel_not_found[OF ready_ready_server no_channel_x,
          of "JObj [(''channel_name'', JStr ''x''), (''message_id'', JStr ''123'')]" online]
    parse_reaction_x
  by (simp add: ready_ready_server)

lemma parse_send_x:
  "SendMessageSchema (JObj [(''channel_name'', JStr ''x''), (''content'', JStr ''hi'')])
     = Inr \<lparr>send_channel_name = ''x'', send_content = ''hi'', send_project_name = None\<rparr>"
  by (simp add: SendMessageSchema_def field_def z_optional_def)

text \<open>
  The claim as stated fails in two places: before the session is ready the resolver
  answers that the client is not ready, whatever the name; and the \<open>send_message\<close> of
  the resilient draft queues the message and answers with the queue notice.
\<close>

theorem channel_not_found_counterexample:
  "find_channel (guilds fresh_server) ''x'' = None
   \<and> getChannelByName fresh_server ''x''
       = Inl (McpError InternalError ''Discord client is not ready.'')
   \<and> find_channel (guilds ready_server) ''x'' = None
   \<and> callTool online ''send_message''
        (JObj [(''channel_name'', JStr ''x''), (''content'', JStr ''hi'')]) ready_server
       = (Inr (queue_notice (McpError InvalidParams ''Channel #x not found.'')),
          ready_server\<lparr>pendingMessages :=
             [\<lparr>channel_name = ''x'', content = ''[mcp-servers] hi''\<rparr>]\<rparr>)"
proof -
  have a: "find_channel (guilds fresh_server) ''x'' = None"
    by (simp add: fresh_server_def general_def lobby_def)
  have b: "getChannelByName fresh_server ''x''
       = Inl (McpError InternalError ''Discord client is not ready.'')"
    by (simp add: getChannelByName_def fresh_server_def)
  have c: "find_channel (guilds ready_server) ''x'' = None"
    by (simp add: ready_server_def fresh_server_def general_def lobby_def)
  have g: "getChannelByName ready_server ''x'' = Inl (McpError InvalidParams ''Channel #x not found.'')"
    using c by (simp add: getChannelByName_def ready_ready_server)
  have mc: "messageContent online
              \<lparr>send_channel_name = ''x'', send_content = ''hi'', send_project_name = None\<rparr>
            = ''[mcp-servers] hi''"
    by (simp add: messageContent_def online_def)
  have sa: "send_attempt online ''x'' ''[mcp-servers] hi'' ready_server
              = (Inl (McpError InvalidParams ''Channel #x not found.''), ready_server)"
    by (simp add: send_attempt_def ensureConnected_ready[OF ready_ready_server] g)
  have d: "callTool online ''send_message''
        (JObj [(''channel_name'', JStr ''x''), (''content'', JStr ''hi'')]) ready_server
       = (Inr (queue_notice (McpError InvalidParams ''Channel #x not found.'')),
          ready_server\<lparr>pendingMessages :=
             [\<lparr>channel_name = ''x'', content = ''[mcp-servers] hi''\<rparr>]\<rparr>)"
    by (simp add: callTool_def send_message_def parse_send_x mc sa catch_zod_def)
       (simp add: ready_server_def fresh_server_def)
  from a b c d show ?thesis by blast
qed

lemma resolver_not_unknown:
  "getChannelByName s n \<noteq> Inl (McpError MethodNotFound m)"
  "getChannelByName_v100 s n \<noteq> Inl (McpError MethodNotFound m)"
  by (auto simp: getChannelByName_def getChannelByName_v100_def split: option.splits)

lemma platform_errors:
  "channel_send env ch t s \<noteq> (Inl (McpError c m), s')"
  "messages_fetch env ch n s \<noteq> (Inl (McpError c m), s')"
  "message_fetch env ch i s \<noteq> (Inl (McpError c m), s')"
  "message_react env msg e s \<noteq> (Inl (McpError c m), s')"
  "reaction_users_remove env msg e s \<noteq> (Inl (McpError c m), s')"
  "message_delete env msg s \<noteq> (Inl (McpError c m), s')"
  by (auto simp: channel_send_def messages_fetch_def message_fetch_def message_react_def
        reaction_users_remove_def message_delete_def Let_def split: option.splits sum.splits)

lemma ensureConnected_error:
  "ensureConnected env s \<noteq> (Inl (McpError c m), s')"
  by (auto simp: ensureConnected_def ensureConnected_sync_def login_settle_def Let_def
        split: option.splits login_outcome.splits)

lemma catch_zod_unknown:
  "fst (catch_zod env r) = Inl (McpError MethodNotFound m) \<Longrightarrow> fst r = Inl (McpError MethodNotFound m)"
  by (auto simp: catch_zod_def split: prod.splits sum.splits error.splits)

lemma read_not_unknown:
  "fst (read_recent_messages env args s) \<noteq> Inl (McpError MethodNotFound m)"
  "fst (read_recent_messages_v100 env args s) \<noteq> Inl (McpError MethodNotFound m)"
  by (auto simp: read_recent_messages_def read_recent_messages_v100_def
        platform_errors resolver_not_unknown split: sum.splits prod.splits)

lemma send_not_unknown:
  "fst (send_message env args s) \<noteq> Inl (McpError MethodNotFound m)"
  "fst (send_message_v100 env args s) \<noteq> Inl (McpError MethodNotFound m)"
  by (auto simp: send_message_def send_message_v100_def
        platform_errors resolver_not_unknown split: sum.splits prod.splits)

lemma add_not_unknown:
  "fst (add_reaction env args s) \<noteq> Inl (McpError MethodNotFound m)"
  "fst (add_reaction_v100 env args s) \<noteq> Inl (McpError MethodNotFound m)"
  by (auto simp: add_reaction_def add_reaction_v100_def
        platform_errors resolver_not_unknown split: sum.splits prod.splits)

lemma remove_not_unknown:
  "fst (remove_reaction_v100 env args s) \<noteq> Inl (McpError MethodNotFound m)"
  by (auto simp: remove_reaction_v100_def
        platform_errors resolver_not_unknown split: sum.splits prod.splits option.splits)

lemma delete_not_unknown:
  "fst (delete_message_v100 env args s) \<noteq> Inl (McpError MethodNotFound m)"
  by (auto simp: delete_message_v100_def
        platform_errors resolver_not_unknown split: sum.splits prod.splits)

lemma callTool_v100_known:
  assumes "name \<in> set tools_v100"
  shows "fst (callTool_v100 env name args s) \<noteq> Inl (McpError MethodNotFound m)"
proof
  assume "fst (callTool_v100 env name args s) = Inl (McpError MethodNotFound m)"
  then have "fst (if name = ''read_recent_messages'' then read_recent_messages_v100 env args s
        else if name = ''send_message'' then send_message_v100 env args s
        else if name = ''add_reaction'' then add_reaction_v100 env args s
        else if name = ''remove_reaction'' then remove_reaction_v100 env args s
        else if name = ''delete_message'' then delete_message_v100 env args s
        else (Inl (McpError MethodNotFound (''Unknown tool: '' @ name)), s))
      = Inl (McpError MethodNotFound m)"
    unfolding callTool_v100_def by (rule catch_zod_unknown)
  with assms show False
    by (auto simp: tools_v100_def read_not_unknown send_not_unknown add_not_unknown
          remove_not_unknown delete_not_unknown split: if_splits)
qed

lemma callTool_v100_unknown:
  assumes "name \<notin> set tools_v100"
  shows "callTool_v100 env name args s = (Inl (McpError MethodNotFound (''Unknown tool: '' @ name)), s)"
  using assms by (simp add: callTool_v100_def tools_v100_def catch_zod_def)

lemma callTool_known:
  assumes "name \<in> set tools"
  shows "fst (callTool env name args s) \<noteq> Inl (McpError MethodNotFound m)"
proof
  assume "fst (callTool env name args s) = Inl (McpError MethodNotFound m)"
  then have *: "fst (case (if name \<noteq> ''send_message'' then ensureConnected env s else (Inr (), s)) of
          (Inl e, s') \<Rightarrow> (Inl e, s')
        | (Inr u, s') \<Rightarrow>
            (if name = ''read_recent_messages'' then read_recent_messages env args s'
             else if name = ''send_message'' then send_message env args s'
             else if name = ''add_reaction'' then add_reaction env args s'
             else (Inl (McpError MethodNotFound (''Unknown tool: '' @ name)), s')))
      = Inl (McpError MethodNotFound m)"
    unfolding callTool_def by (rule catch_zod_unknown)
  show False
  proof (cases "name = ''send_message''")
    case True
    with * show False by (simp add: send_not_unknown)
  next
    case False
    obtain r s' where ec: "ensureConnected env s = (r, s')"
      by (cases "ensureConnected env s") auto
    show False
    proof (cases r)
      case (Inl e)
      with * False ec ensureConnected_error[of env s MethodNotFound m s'] show False by simp
    next
      case (Inr u)
      with * False ec assms show False
        by (auto simp: tools_def read_not_unknown add_not_unknown split: if_splits)
    qed
  qed
qed

lemma callTool_unknown:
  assumes "name \<notin> set tools"
  shows "callTool env name args s =
          (case ensureConnected env s of
             (Inl e, s') \<Rightarrow> (Inl e, s')
           | (Inr u, s') \<Rightarrow> (Inl (McpError MethodNotFound (''Unknown tool: '' @ name)), s'))"
proof -
  obtain r s' where ec: "ensureConnected env s = (r, s')"
    by (cases "ensureConnected env s") auto
  show ?thesis
  proof (cases r)
    case (Inl e)
    have "\<And>is. e \<noteq> ZodError is"
      using ec Inl
      by (auto simp: ensureConnected_def ensureConnected_sync_def login_settle_def Let_def
            split: option.splits login_outcome.splits if_splits)
    then have "catch_zod env (Inl e, s') = (Inl e, s')"
      by (cases e) (auto simp: catch_zod_def)
    with assms ec Inl show ?thesis by (simp add: callTool_def tools_def)
  next
    case (Inr u)
    with assms ec show ?thesis by (simp add: callTool_def tools_def catch_zod_def)
  qed
qed


lemma ready_channel_send: "ready (snd (channel_send env ch t s)) = ready s"
  by (simp add: channel_send_def Let_def split: option.splits)

lemma ready_flush_loop: "ready (flush_loop env msgs s) = ready s"
proof (induction msgs arbitrary: s)
  case Nil
  show ?case by simp
next
  case (Cons msg rest)
  show ?case
  proof (cases "getChannelByName s (channel_name msg)")
    case (Inl e)
    then show ?thesis by (simp add: Cons.IH)
  next
    case (Inr ch)
    obtain r s' where sent: "channel_send env ch (content msg @ delay_note) s = (r, s')"
      by (cases "channel_send env ch (content msg @ delay_note) s") auto
    have "ready s' = ready s"
      using ready_channel_send[of env ch "content msg @ delay_note" s] by (simp add: sent)
    then show ?thesis by (cases r) (simp_all add: Inr sent Cons.IH)
  qed
qed

lemma ready_flushPendingMessages: "ready (flushPendingMessages env s) = ready s"
  by (simp add: flushPendingMessages_def ready_flush_loop Let_def)

lemma ensureConnected_still_down:
  assumes "\<not> ready (snd (ensureConnected env s))"
  shows "pendingMessages (snd (ensureConnected env s)) = pendingMessages s"
  using assms
  by (auto simp: ensureConnected_def ensureConnected_sync_def login_settle_def login_finally_def
        on_ready_def on_error_def ready_flushPendingMessages Let_def
        split: option.splits login_outcome.splits if_splits)

lemma send_attempt_still_down:
  assumes "\<not> ready (snd (ensureConnected env s))"
  shows "\<exists>e. send_attempt env name t s = (Inl e, snd (ensureConnected env s))"
proof -
  obtain r s1 where ec: "ensureConnected env s = (r, s1)"
    by (cases "ensureConnected env s") auto
  with assms have nr: "\<not> ready s1" by simp
  show ?thesis
  proof (cases r)
    case (Inl e)
    then show ?thesis by (simp add: send_attempt_def ec)
  next
    case (Inr u)
    then show ?thesis using nr by (simp add: send_attempt_def ec getChannelByName_def)
  qed
qed

lemma callTool_send_message:
  assumes "SendMessageSchema args = Inr a"
  shows "callTool env ''send_message'' args s =
     (case send_attempt env (send_channel_name a) (messageContent env a) s of
        (Inr u, s1) \<Rightarrow> (Inr (check_mark @ '' Message sent to #'' @ send_channel_name a), s1)
      | (Inl e, s1) \<Rightarrow>
          (Inr (queue_notice e),
           s1\<lparr>pendingMessages :=
                pendingMessages s1
                  @ [\<lparr>channel_name = send_channel_name a, content = messageContent env a\<rparr>]\<rparr>))"
  by (simp add: callTool_def send_message_def assms catch_zod_def split: prod.splits sum.splits)

text \<open>
  C2 (as amended). A \<open>send_message\<close> request whose arguments parse never raises. When
  the attempt (connect, resolve, send) fails, the answer is the queue notice and the
  message is appended, once, to the queue as the attempt left it; when the attempt
  succeeds, the answer is the confirmation and nothing is appended. In particular, when
  the session is still not ready after \<open>ensureConnected\<close>, the answer is the queue
  notice and the queue is the queue before the request with the one message appended.
\<close>

theorem send_message_never_raises:
  assumes "SendMessageSchema args = Inr a"
  shows "(\<exists>t. fst (callTool env ''send_message'' args s) = Inr t)
     \<and> (\<forall>e s1. send_attempt env (send_channel_name a) (messageContent env a) s = (Inl e, s1) \<longrightarrow>
           callTool env ''send_message'' args s =
             (Inr (queue_notice e),
              s1\<lparr>pendingMessages :=
                   pendingMessages s1
                     @ [\<lparr>channel_name = send_channel_name a, content = messageContent env a\<rparr>]\<rparr>))
     \<and> (\<forall>u s1. send_attempt env (send_channel_name a) (messageContent env a) s = (Inr u, s1) \<longrightarrow>
           callTool env ''send_message'' args s =
             (Inr (check_mark @ '' Message sent to #'' @ send_channel_name a), s1))
     \<and> (\<not> ready (snd (ensureConnected env s)) \<longrightarrow>
           (\<exists>e. fst (callTool env ''send_message'' args s) = Inr (queue_notice e))
           \<and> pendingMessages (snd (callTool env ''send_message'' args s)) =
               pendingMessages s
                 @ [\<lparr>channel_name = send_channel_name a, content = messageContent env a\<rparr>])"
proof -
  note ct = callTool_send_message[OF assms, of env s]
  have a1: "\<exists>t. fst (callTool env ''send_message'' args s) = Inr t"
    unfolding ct by (auto split: prod.splits sum.splits)
  have a2: "\<forall>e s1. send_attempt env (send_channel_name a) (messageContent env a) s = (Inl e, s1) \<longrightarrow>
           callTool env ''send_message'' args s =
             (Inr (queue_notice e),
              s1\<lparr>pendingMessages :=
                   pendingMessages s1
                     @ [\<lparr>channel_name = send_channel_name a, content = messageContent env a\<rparr>]\<rparr>)"
    unfolding ct by simp
  have a3: "\<forall>u s1. send_attempt env (send_channel_name a) (messageContent env a) s = (Inr u, s1) \<longrightarrow>
           callTool env ''send_message'' args s =
             (Inr (check_mark @ '' Message sent to #'' @ send_channel_name a), s1)"
    unfolding ct by simp
  have a4: "(\<exists>e. fst (callTool env ''send_message'' args s) = Inr (queue_notice e))
           \<and> pendingMessages (snd (callTool env ''send_message'' args s)) =
               pendingMessages s
                 @ [\<lparr>channel_name = send_channel_name a, content = messageContent env a\<rparr>]"
    if down: "\<not> ready (snd (ensureConnected env s))"
  proof -
    from send_attempt_still_down[OF down, of "send_channel_name a" "messageContent env a"]
    obtain e where sa: "send_attempt env (send_channel_name a) (messageContent env a) s
                          = (Inl e, snd (ensureConnected env s))"
      by blast
    show ?thesis
      unfolding ct sa using ensureConnected_still_down[OF down] by auto
  qed
  from a1 a2 a3 a4 show ?thesis by blast
qed

lemma parse_send_general:
  "SendMessageSchema (JObj [(''channel_name'', JStr ''general''), (''content'', JStr ''hi'')])
     = Inr \<lparr>send_channel_name = ''general'', send_content = ''hi'', send_project_name = None\<rparr>"
  by (simp add: SendMessageSchema_def field_def z_optional_def)

lemma offline_login:
  "ensureConnected offline fresh_server
     = (Inl (OtherError ''An invalid token was provided.''), fresh_server\<lparr>calls := [Login]\<rparr>)"
  by (simp add: ensureConnected_def ensureConnected_sync_def login_settle_def login_finally_def
        offline_def online_def fresh_server_def Let_def)

lemma message_content_example:
  "messageContent offline
     \<lparr>send_channel_name = ''general'', send_content = ''hi'', send_project_name = None\<rparr>
     = ''[mcp-servers] hi''"
  "messageContent online
     \<lparr>send_channel_name = ''general'', send_content = ''hi'', send_project_name = None\<rparr>
     = ''[mcp-servers] hi''"
  by (simp_all add: messageContent_def offline_def online_def)

theorem send_message_never_raises_witness:
  "\<not> ready (snd (ensureConnected offline fresh_server))
   \<and> (\<exists>e. fst (callTool offline ''send_message''
               (JObj [(''channel_name'', JStr ''general''), (''content'', JStr ''hi'')]) fresh_server)
            = Inr (queue_notice e))
   \<and> pendingMessages (snd (callTool offline ''send_message''
        (JObj [(''channel_name'', JStr ''general''), (''content'', JStr ''hi'')]) fresh_server))
       = [\<lparr>channel_name = ''general'', content = ''[mcp-servers] hi''\<rparr>]"
  using send_message_never_raises[OF parse_send_general, of offline fresh_server]
  by (simp add: offline_login message_content_example) (simp add: fresh_server_def)

lemma online_login:
  "ensureConnected online fresh_server
     = (Inr (), fresh_server\<lparr>ready := True, readyListener := False, calls := [Login]\<rparr>)"
  by (simp add: ensureConnected_def ensureConnected_sync_def login_settle_def login_finally_def
        on_ready_def flushPendingMessages_def online_def fresh_server_def Let_def)

text \<open>
  The claim as stated fails when the login made on demand succeeds: a send attempted
  while disconnected is then delivered at once, and nothing is queued.
\<close>

theorem send_while_disconnected_counterexample:
  "\<not> ready fresh_server \<and> \<not> loggingIn fresh_server
   \<and> callTool online ''send_message''
        (JObj [(''channel_name'', JStr ''general''), (''content'', JStr ''hi'')]) fresh_server
       = (Inr (check_mark @ '' Message sent to #general''),
          fresh_server\<lparr>ready := True, readyListener := False,
            calls := [Login, Send general ''[mcp-servers] hi''],
            delivered := [(general, ''[mcp-servers] hi'')]\<rparr>)
   \<and> pendingMessages (snd (callTool online ''send_message''
        (JObj [(''channel_name'', JStr ''general''), (''content'', JStr ''hi'')]) fresh_server)) = []"
proof -
  have g: "getChannelByName (fresh_server\<lparr>ready := True, readyListener := False, calls := [Login]\<rparr>)
             ''general'' = Inr general"
    by (simp add: getChannelByName_def fresh_server_def general_def lobby_def)
  have cs: "channel_send online general ''[mcp-servers] hi''
              (fresh_server\<lparr>ready := True, readyListener := False, calls := [Login]\<rparr>)
            = (Inr (), fresh_server\<lparr>ready := True, readyListener := False,
                 calls := [Login, Send general ''[mcp-servers] hi''],
                 delivered := [(general, ''[mcp-servers] hi'')]\<rparr>)"
    by (simp add: channel_send_def online_def fresh_server_def Let_def)
  have sa: "send_attempt online ''general'' ''[mcp-servers] hi'' fresh_server
            = (Inr (), fresh_server\<lparr>ready := True, readyListener := False,
                 calls := [Login, Send general ''[mcp-servers] hi''],
                 delivered := [(general, ''[mcp-servers] hi'')]\<rparr>)"
    by (simp add: send_attempt_def online_login g cs)
  have ct: "callTool online ''send_message''
        (JObj [(''channel_name'', JStr ''general''), (''content'', JStr ''hi'')]) fresh_server
       = (Inr (check_mark @ '' Message sent to #general''),
          fresh_server\<lparr>ready := True, readyListener := False,
            calls := [Login, Send general ''[mcp-servers] hi''],
            delivered := [(general, ''[mcp-servers] hi'')]\<rparr>)"
    by (simp add: callTool_send_message[OF parse_send_general] message_content_example sa)
  have d: "\<not> ready fresh_server \<and> \<not> loggingIn fresh_server"
    by (simp add: fresh_server_def)
  show ?thesis unfolding ct using d by (simp add: fresh_server_def)
qed


text \<open>
  A message queued while the login is refused is delivered, with the delay notice, when
  the client later becomes ready.
\<close>

lemma queued_send_is_replayed:
  "on_ready online
     (snd (callTool offline ''send_message''
        (JObj [(''channel_name'', JStr ''general''), (''content'', JStr ''hi'')]) fresh_server))
   = fresh_server
       \<lparr>ready := True, readyListener := False,
        calls := [Login, Send general (''[mcp-servers] hi'' @ delay_note)],
        delivered := [(general, ''[mcp-servers] hi'' @ delay_note)]\<rparr>"
proof -
  have sa: "send_attempt offline ''general'' ''[mcp-servers] hi'' fresh_server
              = (Inl (OtherError ''An invalid token was provided.''), fresh_server\<lparr>calls := [Login]\<rparr>)"
    by (simp add: send_attempt_def offline_login)
  have ct: "snd (callTool offline ''send_message''
        (JObj [(''channel_name'', JStr ''general''), (''content'', JStr ''hi'')]) fresh_server)
      = fresh_server\<lparr>calls := [Login],
          pendingMessages := [\<lparr>channel_name = ''general'', content = ''[mcp-servers] hi''\<rparr>]\<rparr>"
    by (simp add: callTool_send_message[OF parse_send_general] message_content_example sa)
       (simp add: fresh_server_def)
  show ?thesis
    unfolding ct
    by (simp add: on_ready_def flushPendingMessages_def getChannelByName_def channel_send_def
          online_def fresh_server_def general_def lobby_def Let_def)
qed

text \<open>
  C5 (as amended). The dispatcher of \<open>src/index.ts\<close> recognises the five operations
  and routes each to its behaviour (the answer is a text or an error, by its type); any
  other name, and only such a name, fails with \<open>MethodNotFound\<close>. The dispatcher of the
  resilient draft recognises three of them; any other name fails with
  \<open>MethodNotFound\<close> once \<open>ensureConnected\<close> has succeeded, and with the error of
  \<open>ensureConnected\<close> otherwise.
\<close>

theorem dispatcher_recognises:
  "(name \<in> set tools_v100 \<longrightarrow>
      (\<forall>m. fst (callTool_v100 env name args s) \<noteq> Inl (McpError MethodNotFound m)))
   \<and> (name \<notin> set tools_v100 \<longrightarrow>
        callTool_v100 env name args s
          = (Inl (McpError MethodNotFound (''Unknown tool: '' @ name)), s))
   \<and> callTool_v100 env ''read_recent_messages'' args s
        = catch_zod env (read_recent_messages_v100 env args s)
   \<and> callTool_v100 env ''send_message'' args s = catch_zod env (send_message_v100 env args s)
   \<and> callTool_v100 env ''add_reaction'' args s = catch_zod env (add_reaction_v100 env args s)
   \<and> callTool_v100 env ''remove_reaction'' args s
        = catch_zod env (remove_reaction_v100 env args s)
   \<and> callTool_v100 env ''delete_message'' args s
        = catch_zod env (delete_message_v100 env args s)
   \<and> (name \<in> set tools \<longrightarrow>
        (\<forall>m. fst (callTool env name args s) \<noteq> Inl (McpError MethodNotFound m)))
   \<and> (name \<notin> set tools \<longrightarrow>
        callTool env name args s =
          (case ensureConnected env s of
             (Inl e, s') \<Rightarrow> (Inl e, s')
           | (Inr u, s') \<Rightarrow> (Inl (McpError MethodNotFound (''Unknown tool: '' @ name)), s')))"
proof -
  have r: "callTool_v100 env ''read_recent_messages'' args s
        = catch_zod env (read_recent_messages_v100 env args s)"
    "callTool_v100 env ''send_message'' args s = catch_zod env (send_message_v100 env args s)"
    "callTool_v100 env ''add_reaction'' args s = catch_zod env (add_reaction_v100 env args s)"
    "callTool_v100 env ''remove_reaction'' args s
        = catch_zod env (remove_reaction_v100 env args s)"
    "callTool_v100 env ''delete_message'' args s
        = catch_zod env (delete_message_v100 env args s)"
    by (simp_all add: callTool_v100_def)
  from r callTool_v100_known[of name env args s] callTool_v100_unknown[of name env args s]
    callTool_known[of name env args s] callTool_unknown[of name env args s]
  show ?thesis by blast
qed

theorem dispatcher_recognises_witness:
  "''delete_message'' \<in> set tools_v100
   \<and> (\<forall>m. fst (callTool_v100 online ''delete_message'' JUndefined ready_server)
             \<noteq> Inl (McpError MethodNotFound m))
   \<and> ''ping'' \<notin> set tools_v100
   \<and> callTool_v100 online ''ping'' JUndefined ready_server
       = (Inl (McpError MethodNotFound ''Unknown tool: ping''), ready_server)
   \<and> ''add_reaction'' \<in> set tools
   \<and> (\<forall>m. fst (callTool online ''add_reaction'' JUndefined ready_server)
             \<noteq> Inl (McpError MethodNotFound m))
   \<and> ''ping'' \<notin> set tools
   \<and> callTool online ''ping'' JUndefined ready_server
       = (Inl (McpError MethodNotFound ''Unknown tool: ping''), ready_server)"
proof -
  have a: "''delete_message'' \<in> set tools_v100" by (simp add: tools_v100_def)
  have b: "''ping'' \<notin> set tools_v100" by (simp add: tools_v100_def)
  have c: "''add_reaction'' \<in> set tools" by (simp add: tools_def)
  have d: "''ping'' \<notin> set tools" by (simp add: tools_def)
  have e: "ensureConnected online ready_server = (Inr (), ready_server)"
    by (simp add: ensureConnected_ready ready_server_def)
  from a dispatcher_recognises[of "''delete_message''" online JUndefined ready_server]
  have f1: "\<forall>m. fst (callTool_v100 online ''delete_message'' JUndefined ready_server)
             \<noteq> Inl (McpError MethodNotFound m)"
    by blast
  from b dispatcher_recognises[of "''ping''" online JUndefined ready_server]
  have f2: "callTool_v100 online ''ping'' JUndefined ready_server
       = (Inl (McpError MethodNotFound (''Unknown tool: '' @ ''ping'')), ready_server)"
    by blast
  from c dispatcher_recognises[of "''add_reaction''" online JUndefined ready_server]
  have f3: "\<forall>m. fst (callTool online ''add_reaction'' JUndefined ready_server)
             \<noteq> Inl (McpError MethodNotFound m)"
    by blast
  from d dispatcher_recognises[of "''ping''" online JUndefined ready_server]
  have "callTool online ''ping'' JUndefined ready_server
       = (case ensureConnected online ready_server of
             (Inl e, s') \<Rightarrow> (Inl e, s')
           | (Inr u, s') \<Rightarrow> (Inl (McpError MethodNotFound (''Unknown tool: '' @ ''ping'')), s'))"
    by blast
  then have f4: "callTool online ''ping'' JUndefined ready_server
       = (Inl (McpError MethodNotFound ''Unknown tool: ping''), ready_server)"
    by (simp add: e)
  from f2 have f2': "callTool_v100 online ''ping'' JUndefined ready_server
       = (Inl (McpError MethodNotFound ''Unknown tool: ping''), ready_server)"
    by simp
  from a b c d f1 f2' f3 f4 show ?thesis by blast
qed

text \<open>
  The claim as stated fails on the resilient draft: \<open>remove_reaction\<close> and
  \<open>delete_message\<close> are unknown to it.
\<close>

theorem missing_tools_counterexample:
  "callTool online ''remove_reaction''
      (JObj [(''channel_name'', JStr ''general''), (''message_id'', JStr ''101'')]) ready_server
     = (Inl (McpError MethodNotFound ''Unknown tool: remove_reaction''), ready_server)
   \<and> callTool online ''delete_message''
      (JObj [(''channel_name'', JStr ''general''), (''message_id'', JStr ''101'')]) ready_server
     = (Inl (McpError MethodNotFound ''Unknown tool: delete_message''), ready_server)"
  using callTool_unknown[of "''remove_reaction''" online _ ready_server]
    callTool_unknown[of "''delete_message''" online _ ready_server]
  by (simp add: tools_def ensureConnected_ready ready_server_def)

section \<open>Properties of the session manager\<close>

text \<open>
  Calls entered one after the other while the session is down share one login attempt:
  the first issues the one login call, the others await the attempt it created.
\<close>

lemma joined_calls:
  assumes "\<not> ready s" "loggingIn s" "loginPromise s = Some p"
  shows "ensureConnected_calls n s = (replicate n (Awaiting p), s)"
  using assms by (induction n) (simp_all add: ensureConnected_sync_def)

lemma back_to_back_calls:
  assumes "\<not> ready s" "\<not> loggingIn s"
  shows "ensureConnected_calls (Suc n) s =
           (replicate (Suc n) (Awaiting (length (calls s))),
            s\<lparr>loggingIn := True, loginPromise := Some (length (calls s)),
              calls := calls s @ [Login], inflight := inflight s @ [length (calls s)]\<rparr>)"
proof -
  let ?s1 = "s\<lparr>loggingIn := True, loginPromise := Some (length (calls s)),
              calls := calls s @ [Login], inflight := inflight s @ [length (calls s)]\<rparr>"
  have first: "ensureConnected_sync s = (Awaiting (length (calls s)), ?s1)"
    using assms by (simp add: ensureConnected_sync_def Let_def)
  have rest: "ensureConnected_calls n ?s1 = (replicate n (Awaiting (length (calls s))), ?s1)"
    using assms by (intro joined_calls) simp_all
  show ?thesis by (simp add: first rest)
qed

lemma flush_loop_session:
  "loggingIn (flush_loop env msgs s) = loggingIn s
   \<and> loginPromise (flush_loop env msgs s) = loginPromise s
   \<and> inflight (flush_loop env msgs s) = inflight s"
proof (induction msgs arbitrary: s)
  case Nil
  show ?case by simp
next
  case (Cons msg rest)
  show ?case
  proof (cases "getChannelByName s (channel_name msg)")
    case (Inl e)
    then show ?thesis by (simp add: Cons.IH)
  next
    case (Inr ch)
    obtain r s' where sent: "channel_send env ch (content msg @ delay_note) s = (r, s')"
      by (cases "channel_send env ch (content msg @ delay_note) s") auto
    then have "loggingIn s' = loggingIn s \<and> loginPromise s' = loginPromise s
                 \<and> inflight s' = inflight s"
      by (auto simp: channel_send_def Let_def split: option.splits)
    then show ?thesis by (cases r) (simp_all add: Inr sent Cons.IH)
  qed
qed

lemma flushPendingMessages_session:
  "loggingIn (flushPendingMessages env s) = loggingIn s
   \<and> loginPromise (flushPendingMessages env s) = loginPromise s
   \<and> inflight (flushPendingMessages env s) = inflight s"
  by (simp add: flushPendingMessages_def flush_loop_session Let_def)

text \<open>
  As long as the client emits \<open>ready\<close> and \<open>error\<close> only as the end of the attempt
  in flight, at most one attempt is in flight, and it is the one \<open>loginPromise\<close> holds.
\<close>

lemma single_flight_step:
  assumes "single_flight s" "ev \<noteq> EvReady" "ev \<noteq> EvError"
  shows "single_flight (step env s ev)"
proof (cases ev)
  case (Completed p)
  show ?thesis
  proof (cases "p \<in> set (inflight s)")
    case False
    with assms(1) Completed show ?thesis by simp
  next
    case True
    with assms(1) have one: "loggingIn s" "loginPromise s = Some p" "inflight s = [p]"
      by (auto simp: single_flight_def split: if_splits option.splits)
    have "inflight (on_ready env s) = [p]"
      using one by (simp add: on_ready_def flushPendingMessages_session)
    then have "single_flight (snd (login_settle env p s))"
      using one
      by (auto simp: login_settle_def login_finally_def on_error_def single_flight_def
            split: login_outcome.splits)
    with True Completed show ?thesis by simp
  qed
qed (use assms in \<open>auto simp: single_flight_def ensureConnected_sync_def login_finally_def
        on_shardDisconnect_def on_shardReconnecting_def Let_def
        split: option.splits if_splits\<close>)

lemma single_flight_run:
  assumes "single_flight s" "EvReady \<notin> set evs" "EvError \<notin> set evs"
  shows "single_flight (run env s evs)"
  using assms unfolding run_def
  by (induction evs arbitrary: s) (auto simp: single_flight_step)

lemma single_flight_fresh: "single_flight fresh_server"
  by (simp add: single_flight_def fresh_server_def)

text \<open>
  C1. The single-flight property does not hold of the code. The \<open>error\<close> handler of
  \<open>setupDiscordEvents\<close> clears \<open>loggingIn\<close> and leaves the attempt in flight: when
  the client emits \<open>error\<close> while the first caller still awaits \<open>client.login\<close>, a
  second call of \<open>ensureConnected\<close> finds the flag cleared and logs in again. Two login
  calls are issued, two attempts are in flight, and the two callers await different
  attempts.
\<close>

theorem error_event_breaks_single_flight:
  "run env fresh_server [CallEnsureConnected, EvError, CallEnsureConnected]
     = fresh_server\<lparr>loggingIn := True, loginPromise := Some 1, calls := [Login, Login],
         inflight := [0, 1]\<rparr>
   \<and> fst (ensureConnected_sync fresh_server) = Awaiting 0
   \<and> fst (ensureConnected_sync (run env fresh_server [CallEnsureConnected, EvError])) = Awaiting 1
   \<and> \<not> single_flight (run env fresh_server [CallEnsureConnected, EvError, CallEnsureConnected])"
  by (simp add: run_def ensureConnected_sync_def on_error_def fresh_server_def single_flight_def
        Let_def)

end
